theory Spec2Isabelle
  imports Main
begin

section \<open>Constants of the editor (consts.js, as imageEditor.js uses them)\<close>

text \<open>
  \<^verbatim>\<open>consts.states\<close>: the editor's current interactive mode (\<^verbatim>\<open>this._state\<close>).
\<close>

datatype states = NORMAL | CROP | FREE_DRAWING | TEXT

text \<open>
  \<^verbatim>\<open>consts.eventNames\<close> and \<^verbatim>\<open>consts.commandNames\<close>. Both tables have keys of the same
  name (ADD_OBJECT, LOAD_IMAGE, ...), so the constructors carry a prefix.
\<close>

datatype eventNames =
    EV_PUSH_UNDO_STACK | EV_PUSH_REDO_STACK | EV_EMPTY_UNDO_STACK | EV_EMPTY_REDO_STACK
  | EV_ADD_OBJECT | EV_REMOVE_OBJECT | EV_CLEAR_OBJECTS | EV_CLEAR_IMAGE | EV_LOAD_IMAGE
  | EV_START_CROPPING | EV_END_CROPPING | EV_FLIP_IMAGE | EV_ROTATE_IMAGE
  | EV_START_FREE_DRAWING | EV_END_FREE_DRAWING

datatype commandNames =
    CMD_CLEAR_OBJECTS | CMD_LOAD_IMAGE | CMD_FLIP_IMAGE | CMD_ROTATE_IMAGE
  | CMD_ADD_OBJECT | CMD_REMOVE_OBJECT

section \<open>Data model\<close>

text \<open>A JavaScript object literal of string properties (text settings, styles, brush).\<close>

type_synonym jsobject = "(string \<times> string) list"

text \<open>
  A string argument of the public interface may be missing: \<open>None\<close> is
  \<^verbatim>\<open>undefined\<close>/\<^verbatim>\<open>null\<close>. A missing and an empty string are the falsy ones.
\<close>

fun truthy :: "string option \<Rightarrow> bool" where
  "truthy None = False"
| "truthy (Some v) = (v \<noteq> [])"

text \<open>
  A fabric object on the canvas: its identity, its fabric type (\<^verbatim>\<open>obj.isType\<close>), its
  \<^verbatim>\<open>obj.text\<close> and whether tui.util has stamped it (\<^verbatim>\<open>tui.util.hasStamp\<close>).
\<close>

record fobj =
  oid :: nat
  otype :: string
  otext :: string
  hasStamp :: bool

definition isType :: "fobj \<Rightarrow> string \<Rightarrow> bool" where
  "isType obj t = (otype obj = t)"

text \<open>
  The fabric canvas, as far as the editor reads and writes it: the objects, the active
  object and group, the \<^verbatim>\<open>selection\<close> flag, the default cursor, the handlers registered
  for \<^verbatim>\<open>mouse:down\<close> (each \<^verbatim>\<open>$.proxy\<close> result is a function of its own, named by a number)
  and the current size of the canvas element.
\<close>

record fcanvas =
  objects :: "fobj list"
  activeObject :: "fobj option"
  activeGroup :: "fobj list option"
  selection :: bool
  defaultCursor :: string
  mouseDown :: "nat list"
  elementWidth :: nat
  elementHeight :: nat

text \<open>The target of a remove command: the active object, or else the active group.\<close>

datatype target = TObject fobj | TGroup "fobj list"

datatype arg = AStr "string option" | ANum int | AObj fobj | ATarget "target option"

text \<open>
  The callbacks the editor binds to a command, defunctionalised:
  \<^verbatim>\<open>$.proxy(this.fire, this, eventName)\<close>, \<^verbatim>\<open>$.proxy(this._callbackAfterImageLoading, this)\<close>
  and the anonymous undo callback of \<^verbatim>\<open>loadImageFromURL\<close>.
\<close>

datatype callback = Fire eventNames | CallbackAfterImageLoading | LoadImageUndoCallback

record command =
  cname :: commandNames
  cargs :: "arg list"
  executeCallback :: "callback option"
  undoCallback :: "callback option"

text \<open>
  What an action of a command hands to its callback: a fabric image (with its width and
  height), \<^verbatim>\<open>null\<close>, or some other value, written as a string. An image is truthy,
  \<^verbatim>\<open>null\<close> is falsy, and of the other values the empty string is the falsy one.
\<close>

record fimage =
  width :: nat
  height :: nat

datatype result = Image fimage | Null | Data string

fun resultTruthy :: "result \<Rightarrow> bool" where
  "resultTruthy (Image img) = True"
| "resultTruthy Null = False"
| "resultTruthy (Data d) = (d \<noteq> [])"

text \<open>The descriptor \<^verbatim>\<open>cropper.end\<close> returns: \<^verbatim>\<open>{url, imageName}\<close>.\<close>

record descriptor =
  url :: string
  imageName :: string

text \<open>A \<^verbatim>\<open>File\<close>: its name and the URL \<^verbatim>\<open>URL.createObjectURL\<close> gives for it.\<close>

record imgFile =
  fileName :: string
  objectURL :: string

text \<open>
  Everything the editor does to the outside is recorded in order: the events it fires
  (\<^verbatim>\<open>this.fire\<close>) with their payload, and the calls to the per-tool components.
\<close>

datatype payload =
    PNone
  | PObject fobj
  | PResult result
  | PDimension "nat option" "nat option" nat nat

datatype componentCall =
    CropperStart
  | CropperEnd bool
  | FreeDrawingStart "jsobject option"
  | FreeDrawingEnd
  | TextAdd string jsobject
  | TextChange fobj string
  | TextSetStyle fobj jsobject

datatype effect = Fired eventNames payload | Called componentCall

datatype error = TypeError | ActionFailed

text \<open>
  The editor: \<^verbatim>\<open>this._state\<close>, \<^verbatim>\<open>this._canvas\<close>, \<^verbatim>\<open>this._listener\<close>, the number of
  \<^verbatim>\<open>$.proxy\<close> functions made so far for the mouse handler (the next fresh name), the two
  stacks of \<^verbatim>\<open>this._invoker\<close> (the head of a list is the top of the stack), the crop region
  the user has drawn (as the descriptor the cropper would return for it), and the record
  of effects.
\<close>

record editor =
  state :: states
  canvas :: fcanvas
  listener :: "nat option"
  proxies :: nat
  undoStack :: "command list"
  redoStack :: "command list"
  cropRegion :: "descriptor option"
  trace :: "effect list"

text \<open>
  The actions of the command factory (factory/command.js is not part of the sources): what
  the execute and the undo action of a command do to the canvas and return, \<open>None\<close> when
  the action fails. They are a parameter of every operation that runs a command.
\<close>

record actions =
  actExecute :: "command \<Rightarrow> fcanvas \<Rightarrow> (result \<times> fcanvas) option"
  actUndo :: "command \<Rightarrow> fcanvas \<Rightarrow> (result \<times> fcanvas) option"

section \<open>Events, components, canvas\<close>

definition fire :: "eventNames \<Rightarrow> payload \<Rightarrow> editor \<Rightarrow> editor" where
  "fire ev p s = s\<lparr>trace := trace s @ [Fired ev p]\<rparr>"

definition callComponent :: "componentCall \<Rightarrow> editor \<Rightarrow> editor" where
  "callComponent c s = s\<lparr>trace := trace s @ [Called c]\<rparr>"

definition getCurrentState :: "editor \<Rightarrow> states" where
  "getCurrentState s = state s"

text \<open>
  \<^verbatim>\<open>canvas.on('mouse:down', l)\<close> and \<^verbatim>\<open>canvas.off('mouse:down', l)\<close>. fabric's \<^verbatim>\<open>off\<close>
  takes one registration of the handler out of the list; without a handler
  (\<^verbatim>\<open>this._listener\<close> still undefined) it drops every handler of the event.
\<close>

definition canvas_on :: "nat \<Rightarrow> fcanvas \<Rightarrow> fcanvas" where
  "canvas_on l cv = cv\<lparr>mouseDown := mouseDown cv @ [l]\<rparr>"

definition canvas_off :: "nat option \<Rightarrow> fcanvas \<Rightarrow> fcanvas" where
  "canvas_off l cv =
     (case l of
        None \<Rightarrow> cv\<lparr>mouseDown := []\<rparr>
      | Some h \<Rightarrow> cv\<lparr>mouseDown := remove1 h (mouseDown cv)\<rparr>)"

text \<open>The \<^verbatim>\<open>object:removed\<close> handler of \<^verbatim>\<open>_attachCanvasEvents\<close>.\<close>

definition onObjectRemoved :: "fobj \<Rightarrow> editor \<Rightarrow> editor" where
  "onObjectRemoved obj s = fire EV_REMOVE_OBJECT (PObject obj) s"

text \<open>
  \<^verbatim>\<open>obj.remove()\<close>: the canvas takes the object out of its array of objects, gives up the
  active object if it was this one, and signals \<^verbatim>\<open>object:removed\<close>.
\<close>

definition obj_remove :: "fobj \<Rightarrow> editor \<Rightarrow> editor" where
  "obj_remove obj s =
     onObjectRemoved obj
       (s\<lparr>canvas := (canvas s)
            \<lparr>objects := remove1 obj (objects (canvas s)),
             activeObject :=
               (if activeObject (canvas s) = Some obj then None
                else activeObject (canvas s))\<rparr>\<rparr>)"

text \<open>
  The loop of \<^verbatim>\<open>endTextMode\<close>:
  \<^verbatim>\<open>canvas.forEachObject(function(obj) { if (obj.isType('text') && obj.text === '') { obj.remove(); } })\<close>.
  fabric walks the canvas's own array of objects from index 0 and reads the length once,
  before the loop; \<^verbatim>\<open>obj.remove()\<close> shortens that array while the loop runs. The first
  argument is the number of rounds left, the second the index. Once the index is past the
  end of the shortened array the callback gets \<^verbatim>\<open>undefined\<close>, and \<^verbatim>\<open>obj.isType\<close> raises a
  TypeError.
\<close>

fun forEachObject_removeEmptyText :: "nat \<Rightarrow> nat \<Rightarrow> editor \<Rightarrow> error + editor" where
  "forEachObject_removeEmptyText 0 i s = Inr s"
| "forEachObject_removeEmptyText (Suc n) i s =
     (if i < length (objects (canvas s))
      then forEachObject_removeEmptyText n (Suc i)
             (if isType (objects (canvas s) ! i) ''text'' \<and> otext (objects (canvas s) ! i) = []
              then obj_remove (objects (canvas s) ! i) s
              else s)
      else Inl TypeError)"

section \<open>The invoker\<close>

text \<open>
  Modelled from the spec: invoker.js is not part of the sources. Its operations are
  written from section 4.2 of the specification. The invoker's four notifications reach
  the editor's own \<^verbatim>\<open>fire\<close> through \<^verbatim>\<open>_attachInvokerEvents\<close>.
\<close>

text \<open>
  Modelled from the spec: factory/command.js is not part of the sources.
  \<^verbatim>\<open>commandFactory.create(kind, ...args)\<close> gives a command of that kind with its bound
  arguments and no callback yet; \<^verbatim>\<open>setExecuteCallback\<close> and \<^verbatim>\<open>setUndoCallback\<close> each set
  one callback and return the command itself (section 4.1 of the specification).
\<close>

definition create :: "commandNames \<Rightarrow> arg list \<Rightarrow> command" where
  "create n as = \<lparr>cname = n, cargs = as, executeCallback = None, undoCallback = None\<rparr>"

definition setExecuteCallback :: "callback \<Rightarrow> command \<Rightarrow> command" where
  "setExecuteCallback cb cmd = cmd\<lparr>executeCallback := Some cb\<rparr>"

definition setUndoCallback :: "callback \<Rightarrow> command \<Rightarrow> command" where
  "setUndoCallback cb cmd = cmd\<lparr>undoCallback := Some cb\<rparr>"

text \<open>
  Modelled from the spec: \<^verbatim>\<open>pushUndoStack\<close> pushes the command and fires the
  push-undo-stack notification.
\<close>

definition invoker_pushUndoStack :: "command \<Rightarrow> editor \<Rightarrow> editor" where
  "invoker_pushUndoStack cmd s =
     fire EV_PUSH_UNDO_STACK PNone (s\<lparr>undoStack := cmd # undoStack s\<rparr>)"

text \<open>
  Modelled from the spec: \<^verbatim>\<open>clearRedoStack\<close> discards all entries; if the stack was
  non-empty it fires the empty-redo-stack notification.
\<close>

definition invoker_clearRedoStack :: "editor \<Rightarrow> editor" where
  "invoker_clearRedoStack s =
     (if redoStack s = [] then s else fire EV_EMPTY_REDO_STACK PNone (s\<lparr>redoStack := []\<rparr>))"

text \<open>
  \<^verbatim>\<open>_callbackAfterImageLoading(oImage)\<close>: fires loadImage with the image's dimensions and
  the canvas element's. Reading \<^verbatim>\<open>oImage.width\<close> of \<^verbatim>\<open>null\<close> is a TypeError; of a value
  that is no image it is undefined.
\<close>

definition callbackAfterImageLoading :: "result \<Rightarrow> editor \<Rightarrow> error + editor" where
  "callbackAfterImageLoading oImage s =
     (case oImage of
        Null \<Rightarrow> Inl TypeError
      | Image img \<Rightarrow>
          Inr (fire EV_LOAD_IMAGE
                 (PDimension (Some (width img)) (Some (height img))
                    (elementWidth (canvas s)) (elementHeight (canvas s))) s)
      | Data d \<Rightarrow>
          Inr (fire EV_LOAD_IMAGE
                 (PDimension None None
                    (elementWidth (canvas s)) (elementHeight (canvas s))) s))"

text \<open>
  The undo callback of \<^verbatim>\<open>loadImageFromURL\<close>:
  \<^verbatim>\<open>function(oImage) { if (oImage) { callback(oImage); } else { self.fire(events.CLEAR_IMAGE); } }\<close>
\<close>

definition loadImageUndoCallback :: "result \<Rightarrow> editor \<Rightarrow> error + editor" where
  "loadImageUndoCallback oImage s =
     (if resultTruthy oImage then callbackAfterImageLoading oImage s
      else Inr (fire EV_CLEAR_IMAGE PNone s))"

text \<open>Calling the callback of a command, if one is set, with the result of its action.\<close>

fun runCallback :: "callback option \<Rightarrow> result \<Rightarrow> editor \<Rightarrow> error + editor" where
  "runCallback None r s = Inr s"
| "runCallback (Some (Fire ev)) r s = Inr (fire ev (PResult r) s)"
| "runCallback (Some CallbackAfterImageLoading) r s = callbackAfterImageLoading r s"
| "runCallback (Some LoadImageUndoCallback) r s = loadImageUndoCallback r s"

text \<open>
  Modelled from the spec: \<^verbatim>\<open>invoke(command)\<close> runs the execute action, pushes the command
  onto the undo stack, clears the redo stack (with its notification if it was non-empty),
  fires push-undo-stack and finally calls the execute callback with the result. A failing
  action changes no stack and the failure reaches the caller.
\<close>

definition invoker_invoke :: "actions \<Rightarrow> command \<Rightarrow> editor \<Rightarrow> error + editor" where
  "invoker_invoke env cmd s =
     (case actExecute env cmd (canvas s) of
        None \<Rightarrow> Inl ActionFailed
      | Some (r, cv) \<Rightarrow>
          runCallback (executeCallback cmd) r
            (fire EV_PUSH_UNDO_STACK PNone
               (invoker_clearRedoStack (s\<lparr>canvas := cv, undoStack := cmd # undoStack s\<rparr>))))"

text \<open>
  Modelled from the spec: \<^verbatim>\<open>undo()\<close> is a no-op on an empty undo stack; otherwise it pops
  the top command, runs its undo action, pushes the command onto the redo stack (firing
  push-redo-stack), fires empty-undo-stack if the undo stack is now empty, and calls the
  undo callback with the undo result.
\<close>

definition invoker_undo :: "actions \<Rightarrow> editor \<Rightarrow> error + editor" where
  "invoker_undo env s =
     (case undoStack s of
        [] \<Rightarrow> Inr s
      | cmd # rest \<Rightarrow>
          (case actUndo env cmd (canvas s) of
             None \<Rightarrow> Inl ActionFailed
           | Some (r, cv) \<Rightarrow>
               runCallback (undoCallback cmd) r
                 ((if rest = [] then fire EV_EMPTY_UNDO_STACK PNone else id)
                    (fire EV_PUSH_REDO_STACK PNone
                       (s\<lparr>canvas := cv, undoStack := rest, redoStack := cmd # redoStack s\<rparr>)))))"

text \<open>
  Modelled from the spec: \<^verbatim>\<open>cropper.end(apply)\<close> returns a cropped-image descriptor when
  \<^verbatim>\<open>apply\<close> is true and a crop region was defined, and nothing otherwise.
\<close>

definition cropper_end :: "bool \<Rightarrow> editor \<Rightarrow> descriptor option" where
  "cropper_end isApplying s = (if isApplying then cropRegion s else None)"

section \<open>The editor (imageEditor.js)\<close>

text \<open>\<^verbatim>\<open>init\<close>: a fresh invoker, the canvas of the main component, the state NORMAL.\<close>

definition init :: "fcanvas \<Rightarrow> editor" where
  "init cv =
     \<lparr>state = NORMAL, canvas = cv, listener = None, proxies = 0,
      undoStack = [], redoStack = [], cropRegion = None, trace = []\<rparr>"

text \<open>The \<^verbatim>\<open>object:added\<close> handler of \<^verbatim>\<open>_attachCanvasEvents\<close>.\<close>

definition onObjectAdded :: "fobj \<Rightarrow> editor \<Rightarrow> editor" where
  "onObjectAdded obj s =
     (if isType obj ''cropzone'' then s
      else fire EV_ADD_OBJECT (PObject obj)
             (if \<not> hasStamp obj
              then invoker_clearRedoStack
                     (invoker_pushUndoStack (create CMD_ADD_OBJECT [AObj obj]) s)
              else s))"

definition deactivateAll :: "editor \<Rightarrow> editor" where
  "deactivateAll s = s\<lparr>canvas := (canvas s)\<lparr>activeObject := None, activeGroup := None\<rparr>\<rparr>"

text \<open>
  \<^verbatim>\<open>endTextMode\<close>: the state is set back only in the text mode; the loop over the objects
  and the three canvas settings after it run in every state. A TypeError of the loop ends
  the call before the settings.
\<close>

definition endTextMode :: "editor \<Rightarrow> error + editor" where
  "endTextMode s =
     (let s1 = (if getCurrentState s = TEXT then s\<lparr>state := NORMAL\<rparr> else s)
      in case forEachObject_removeEmptyText (length (objects (canvas s1))) 0 s1 of
           Inl e \<Rightarrow> Inl e
         | Inr s2 \<Rightarrow>
             Inr (s2\<lparr>canvas :=
                       canvas_off (listener s2)
                         ((canvas s2)\<lparr>selection := True, defaultCursor := ''default''\<rparr>)\<rparr>))"

definition endFreeDrawing :: "editor \<Rightarrow> editor" where
  "endFreeDrawing s =
     (if getCurrentState s \<noteq> FREE_DRAWING then s
      else fire EV_END_FREE_DRAWING PNone
             ((callComponent FreeDrawingEnd s)\<lparr>state := NORMAL\<rparr>))"

text \<open>
  The command \<^verbatim>\<open>loadImageFromURL\<close> builds: the load-image command with the image-loading
  callback bound for execute and the anonymous callback bound for undo.
\<close>

definition loadImageCommand :: "string option \<Rightarrow> string option \<Rightarrow> command" where
  "loadImageCommand imgName imgUrl =
     setUndoCallback LoadImageUndoCallback
       (setExecuteCallback CallbackAfterImageLoading
          (create CMD_LOAD_IMAGE [AStr imgName, AStr imgUrl]))"

text \<open>
  \<^verbatim>\<open>endAll\<close>, \<^verbatim>\<open>endCropping\<close>, \<^verbatim>\<open>loadImageFromURL\<close> and \<^verbatim>\<open>execute\<close> call each other:
  \<^verbatim>\<open>endAll\<close> ends cropping, ending a crop may load the cropped image, loading executes a
  command, and \<^verbatim>\<open>execute\<close> starts with \<^verbatim>\<open>endAll\<close>. \<^verbatim>\<open>endAll\<close> calls \<^verbatim>\<open>endCropping()\<close>
  without an argument: \<^verbatim>\<open>isApplying\<close> is undefined, which is falsy.
\<close>

function endAll :: "actions \<Rightarrow> editor \<Rightarrow> error + editor"
  and endCropping :: "actions \<Rightarrow> bool \<Rightarrow> editor \<Rightarrow> error + editor"
  and loadImageFromURL :: "actions \<Rightarrow> string option \<Rightarrow> string option \<Rightarrow> editor \<Rightarrow> error + editor"
  and execute :: "actions \<Rightarrow> command \<Rightarrow> editor \<Rightarrow> error + editor"
where
  "endAll env s =
     (case endTextMode s of
        Inl e \<Rightarrow> Inl e
      | Inr s1 \<Rightarrow>
          (case endCropping env False (endFreeDrawing s1) of
             Inl e \<Rightarrow> Inl e
           | Inr s2 \<Rightarrow> Inr ((deactivateAll s2)\<lparr>state := NORMAL\<rparr>)))"
| "endCropping env isApplying s =
     (if getCurrentState s \<noteq> CROP then Inr s
      else
        (case cropper_end isApplying (s\<lparr>state := NORMAL\<rparr>) of
           None \<Rightarrow>
             Inr (fire EV_END_CROPPING PNone
                    (callComponent (CropperEnd isApplying) (s\<lparr>state := NORMAL\<rparr>)))
         | Some d \<Rightarrow>
             loadImageFromURL env (Some (url d)) (Some (imageName d))
               (fire EV_END_CROPPING PNone
                  (callComponent (CropperEnd isApplying) (s\<lparr>state := NORMAL\<rparr>)))))"
| "loadImageFromURL env imgUrl imgName s =
     (if \<not> truthy imgName \<or> \<not> truthy imgUrl then Inr s
      else execute env (loadImageCommand imgName imgUrl) s)"
| "execute env cmd s =
     (case endAll env s of
        Inl e \<Rightarrow> Inl e
      | Inr s1 \<Rightarrow> invoker_invoke env cmd s1)"
  by pat_completeness auto

text \<open>
  The calls end: a crop ends at most once. None of the steps that \<^verbatim>\<open>endAll\<close> runs before
  \<^verbatim>\<open>endCropping\<close> enters the crop state, and \<^verbatim>\<open>endCropping\<close> has left it before it loads.
\<close>

termination
proof (relation "measure (\<lambda>x. case x of
      Inl (Inl (env, s)) \<Rightarrow> (if state s = CROP then 4 else 0) + 1
    | Inl (Inr (env, a, s)) \<Rightarrow> (if state s = CROP then 4 else 0)
    | Inr (Inl (env, u, n, s)) \<Rightarrow> (if state s = CROP then 4 else 0) + 3
    | Inr (Inr (env, c, s)) \<Rightarrow> (if state s = CROP then 4 else 0) + 2)")
  have loop: "forEachObject_removeEmptyText n i s = Inr s' \<Longrightarrow> state s' = state s"
    for n i s s'
    by (induction n arbitrary: i s)
       (auto simp: obj_remove_def onObjectRemoved_def fire_def split: if_splits)
  have text_mode: "endTextMode s = Inr s' \<Longrightarrow> state s' = CROP \<longleftrightarrow> state s = CROP"
    for s s'
    by (auto simp: endTextMode_def getCurrentState_def Let_def
          split: sum.splits if_splits dest!: loop)
  have drawing: "state (endFreeDrawing s) = CROP \<longleftrightarrow> state s = CROP" for s
    by (simp add: endFreeDrawing_def getCurrentState_def fire_def callComponent_def)
  show "wf (measure (\<lambda>x. case x of
      Inl (Inl (env, s)) \<Rightarrow> (if state s = CROP then 4 else 0) + 1
    | Inl (Inr (env, a, s)) \<Rightarrow> (if state s = CROP then 4 else 0)
    | Inr (Inl (env, u, n, s)) \<Rightarrow> (if state s = CROP then 4 else 0) + 3
    | Inr (Inr (env, c, s)) \<Rightarrow> (if state s = CROP then 4 else 0) + 2))"
    by simp
  show "\<And>env s s1. endTextMode s = Inr s1 \<Longrightarrow>
      (Inl (Inr (env, False, endFreeDrawing s1)), Inl (Inl (env, s)))
      \<in> measure (\<lambda>x. case x of
      Inl (Inl (env, s)) \<Rightarrow> (if state s = CROP then 4 else 0) + 1
    | Inl (Inr (env, a, s)) \<Rightarrow> (if state s = CROP then 4 else 0)
    | Inr (Inl (env, u, n, s)) \<Rightarrow> (if state s = CROP then 4 else 0) + 3
    | Inr (Inr (env, c, s)) \<Rightarrow> (if state s = CROP then 4 else 0) + 2)"
    by (simp add: text_mode drawing)
qed (simp_all add: getCurrentState_def fire_def callComponent_def)

declare endAll.simps [simp del] endCropping.simps [simp del]
  loadImageFromURL.simps [simp del] execute.simps [simp del]

definition undo :: "actions \<Rightarrow> editor \<Rightarrow> error + editor" where
  "undo env s =
     (case endAll env s of
        Inl e \<Rightarrow> Inl e
      | Inr s1 \<Rightarrow> invoker_undo env s1)"

definition clearObjects :: "actions \<Rightarrow> editor \<Rightarrow> error + editor" where
  "clearObjects env s =
     execute env (setExecuteCallback (Fire EV_CLEAR_OBJECTS) (create CMD_CLEAR_OBJECTS [])) s"

text \<open>\<^verbatim>\<open>imageName || imgFile.name\<close> picks the file's name when no truthy name is given.\<close>

definition loadImageFromFile ::
  "actions \<Rightarrow> imgFile option \<Rightarrow> string option \<Rightarrow> editor \<Rightarrow> error + editor" where
  "loadImageFromFile env file imgName s =
     (case file of
        None \<Rightarrow> Inr s
      | Some f \<Rightarrow>
          loadImageFromURL env (Some (objectURL f))
            (if truthy imgName then imgName else Some (fileName f)) s)"

definition startCropping :: "actions \<Rightarrow> editor \<Rightarrow> error + editor" where
  "startCropping env s =
     (if getCurrentState s = CROP then Inr s
      else
        (case endAll env s of
           Inl e \<Rightarrow> Inl e
         | Inr s1 \<Rightarrow>
             Inr (fire EV_START_CROPPING PNone
                    (callComponent CropperStart (s1\<lparr>state := CROP\<rparr>)))))"

text \<open>\<^verbatim>\<open>_flip(type)\<close> and its three public callers.\<close>

definition flip_type :: "string \<Rightarrow> command" where
  "flip_type t =
     setUndoCallback (Fire EV_FLIP_IMAGE)
       (setExecuteCallback (Fire EV_FLIP_IMAGE) (create CMD_FLIP_IMAGE [AStr (Some t)]))"

definition flip :: "actions \<Rightarrow> string \<Rightarrow> editor \<Rightarrow> error + editor" where
  "flip env t s = execute env (flip_type t) s"

definition flipX :: "actions \<Rightarrow> editor \<Rightarrow> error + editor" where
  "flipX env s = flip env ''flipX'' s"

definition flipY :: "actions \<Rightarrow> editor \<Rightarrow> error + editor" where
  "flipY env s = flip env ''flipY'' s"

definition resetFlip :: "actions \<Rightarrow> editor \<Rightarrow> error + editor" where
  "resetFlip env s = flip env ''reset'' s"

text \<open>
  \<^verbatim>\<open>_rotate(type, angle)\<close> and its two public callers; the public \<^verbatim>\<open>rotate\<close> is
  \<open>rotate_angle\<close> here, the list library has a \<open>rotate\<close> of its own.
\<close>

definition rotate_type :: "string \<Rightarrow> int \<Rightarrow> command" where
  "rotate_type t angle =
     setUndoCallback (Fire EV_ROTATE_IMAGE)
       (setExecuteCallback (Fire EV_ROTATE_IMAGE)
          (create CMD_ROTATE_IMAGE [AStr (Some t), ANum angle]))"

definition rotate_priv :: "actions \<Rightarrow> string \<Rightarrow> int \<Rightarrow> editor \<Rightarrow> error + editor" where
  "rotate_priv env t angle s = execute env (rotate_type t angle) s"

definition rotate_angle :: "actions \<Rightarrow> int \<Rightarrow> editor \<Rightarrow> error + editor" where
  "rotate_angle env angle s = rotate_priv env ''rotate'' angle s"

definition setAngle :: "actions \<Rightarrow> int \<Rightarrow> editor \<Rightarrow> error + editor" where
  "setAngle env angle s = rotate_priv env ''setAngle'' angle s"

definition startFreeDrawing :: "actions \<Rightarrow> jsobject option \<Rightarrow> editor \<Rightarrow> error + editor" where
  "startFreeDrawing env setting s =
     (if getCurrentState s = FREE_DRAWING then Inr s
      else
        (case endAll env s of
           Inl e \<Rightarrow> Inl e
         | Inr s1 \<Rightarrow>
             Inr (fire EV_START_FREE_DRAWING PNone
                    ((callComponent (FreeDrawingStart setting) s1)\<lparr>state := FREE_DRAWING\<rparr>))))"

text \<open>
  \<^verbatim>\<open>startTextMode\<close>: \<^verbatim>\<open>endAll\<close> comes first, the check of the state after it. The new
  \<^verbatim>\<open>$.proxy\<close> handler is stored in \<^verbatim>\<open>this._listener\<close> and registered for \<^verbatim>\<open>mouse:down\<close>.
\<close>

definition startTextMode :: "actions \<Rightarrow> editor \<Rightarrow> error + editor" where
  "startTextMode env s =
     (case endAll env s of
        Inl e \<Rightarrow> Inl e
      | Inr s1 \<Rightarrow>
          (if getCurrentState s1 = TEXT then Inr s1
           else
             Inr (s1\<lparr>state := TEXT,
                     listener := Some (proxies s1),
                     proxies := Suc (proxies s1),
                     canvas :=
                       canvas_on (proxies s1)
                         ((canvas s1)\<lparr>selection := False, defaultCursor := ''text''\<rparr>)\<rparr>)))"

text \<open>\<^verbatim>\<open>addText(text, settings)\<close>: \<^verbatim>\<open>text || ''\<close> and \<^verbatim>\<open>settings || {}\<close> go to the component.\<close>

definition addText :: "string option \<Rightarrow> jsobject option \<Rightarrow> editor \<Rightarrow> editor" where
  "addText initText settings s =
     callComponent
       (TextAdd (case initText of None \<Rightarrow> [] | Some t \<Rightarrow> t)
                (case settings of None \<Rightarrow> [] | Some st \<Rightarrow> st))
       (if getCurrentState s \<noteq> TEXT then s\<lparr>state := TEXT\<rparr> else s)"

text \<open>
  \<^verbatim>\<open>changeText\<close> and \<^verbatim>\<open>changeTextStyle\<close> return at once unless the state is TEXT and
  \<^verbatim>\<open>canvas.getActiveObject()\<close> gave an object; only then is the object handed on.
\<close>

definition changeText :: "string \<Rightarrow> editor \<Rightarrow> editor" where
  "changeText newText s =
     (if getCurrentState s \<noteq> TEXT \<or> activeObject (canvas s) = None then s
      else
        (case activeObject (canvas s) of
           None \<Rightarrow> s
         | Some activeObj \<Rightarrow> callComponent (TextChange activeObj newText) s))"

definition changeTextStyle :: "jsobject \<Rightarrow> editor \<Rightarrow> editor" where
  "changeTextStyle styleObj s =
     (if getCurrentState s \<noteq> TEXT \<or> activeObject (canvas s) = None then s
      else
        (case activeObject (canvas s) of
           None \<Rightarrow> s
         | Some activeObj \<Rightarrow> callComponent (TextSetStyle activeObj styleObj) s))"

text \<open>
  \<^verbatim>\<open>removeActiveObject\<close>: the target is read from the canvas before \<^verbatim>\<open>execute\<close> runs:
  \<^verbatim>\<open>canvas.getActiveObject() || canvas.getActiveGroup()\<close>.
\<close>

definition activeTarget :: "fcanvas \<Rightarrow> target option" where
  "activeTarget cv =
     (case activeObject cv of
        Some obj \<Rightarrow> Some (TObject obj)
      | None \<Rightarrow> (case activeGroup cv of None \<Rightarrow> None | Some g \<Rightarrow> Some (TGroup g)))"

definition removeActiveObject :: "actions \<Rightarrow> editor \<Rightarrow> error + editor" where
  "removeActiveObject env s =
     execute env (create CMD_REMOVE_OBJECT [ATarget (activeTarget (canvas s))]) s"

section \<open>Sample inputs\<close>

text \<open>
  Concrete inputs on which the theorems below are run: a command factory whose actions
  succeed and leave the canvas alone (a load-image action returns an image of 640 by 480, any
  other execute action some value, an undo action \<^verbatim>\<open>null\<close>), a canvas with the default
  settings, and two objects.
\<close>

definition sampleActions :: actions where
  "sampleActions =
     \<lparr>actExecute =
        (\<lambda>cmd cv. Some (if cname cmd = CMD_LOAD_IMAGE
                           then Image \<lparr>width = 640, height = 480\<rparr> else Data [], cv)),
      actUndo = (\<lambda>cmd cv. Some (Null, cv))\<rparr>"

definition emptyCanvas :: fcanvas where
  "emptyCanvas =
     \<lparr>objects = [], activeObject = None, activeGroup = None, selection = True,
      defaultCursor = ''default'', mouseDown = [], elementWidth = 300, elementHeight = 150\<rparr>"

definition emptyTextObj :: fobj where
  "emptyTextObj = \<lparr>oid = 1, otype = ''text'', otext = [], hasStamp = True\<rparr>"

definition pathObj :: fobj where
  "pathObj = \<lparr>oid = 2, otype = ''path'', otext = [], hasStamp = False\<rparr>"

text \<open>
  The editor after \<^verbatim>\<open>startFreeDrawing()\<close> on a fresh editor; an editor in the text mode
  (after \<^verbatim>\<open>startTextMode()\<close>) whose canvas holds a selected path and, added after it, an
  empty text object; an editor in the state NORMAL whose canvas holds the same two objects;
  and an editor in the crop mode with a crop region drawn, the canvas set up for cropping
  (no group selection, a crosshair cursor), holding the same two objects.
\<close>

definition drawingEditor :: editor where
  "drawingEditor =
     \<lparr>state = FREE_DRAWING, canvas = emptyCanvas, listener = None, proxies = 0,
      undoStack = [], redoStack = [], cropRegion = None,
      trace = [Called (FreeDrawingStart None), Fired EV_START_FREE_DRAWING PNone]\<rparr>"

definition textEditor :: editor where
  "textEditor =
     \<lparr>state = TEXT,
      canvas = emptyCanvas\<lparr>objects := [pathObj, emptyTextObj], activeObject := Some pathObj,
                             selection := False, defaultCursor := ''text'', mouseDown := [0]\<rparr>,
      listener = Some 0, proxies = 1,
      undoStack = [], redoStack = [], cropRegion = None, trace = []\<rparr>"

definition normalEditor :: editor where
  "normalEditor =
     \<lparr>state = NORMAL,
      canvas = emptyCanvas\<lparr>objects := [pathObj, emptyTextObj]\<rparr>,
      listener = None, proxies = 0,
      undoStack = [], redoStack = [], cropRegion = None, trace = []\<rparr>"

definition croppingEditor :: editor where
  "croppingEditor =
     \<lparr>state = CROP,
      canvas = emptyCanvas\<lparr>objects := [pathObj, emptyTextObj],
                             selection := False, defaultCursor := ''crosshair''\<rparr>,
      listener = None, proxies = 0,
      undoStack = [], redoStack = [],
      cropRegion = Some \<lparr>url = ''data:image/png;base64,AAAA'', imageName = ''lena''\<rparr>,
      trace = []\<rparr>"

text \<open>
  The crop-mode editor after \<^verbatim>\<open>cropper.end(true)\<close> and the endCropping event; a fresh
  editor with one undone command on its redo stack; and a file.
\<close>

definition croppedEditor :: editor where
  "croppedEditor =
     croppingEditor\<lparr>state := NORMAL,
        trace := [Called (CropperEnd True), Fired EV_END_CROPPING PNone]\<rparr>"

definition undoneEditor :: editor where
  "undoneEditor = (init emptyCanvas)\<lparr>redoStack := [rotate_type ''rotate'' 10]\<rparr>"

definition photoFile :: imgFile where
  "photoFile = \<lparr>fileName = ''photo.png'', objectURL = ''blob:0001''\<rparr>"

section \<open>What each step leaves alone\<close>

lemmas effect_defs = fire_def callComponent_def getCurrentState_def

lemmas sample_defs = sampleActions_def emptyCanvas_def emptyTextObj_def pathObj_def init_def

text \<open>
  When the loop of \<^verbatim>\<open>endTextMode\<close> returns, it has changed the canvas and the record of
  events and nothing else, and every object that is no empty text object is still on the
  canvas, in its place among the others.
\<close>

lemma forEachObject_frame:
  "forEachObject_removeEmptyText n i s = Inr s' \<Longrightarrow>
     state s' = state s \<and> undoStack s' = undoStack s \<and> redoStack s' = redoStack s \<and>
     cropRegion s' = cropRegion s \<and> listener s' = listener s \<and> proxies s' = proxies s"
  by (induction n arbitrary: i s)
     (auto simp: obj_remove_def onObjectRemoved_def fire_def split: if_splits)



text \<open>On a canvas without an empty text object the loop returns and changes nothing.\<close>

lemma forEachObject_no_empty_text:
  "\<forall>obj \<in> set (objects (canvas s)). \<not> (isType obj ''text'' \<and> otext obj = []) \<Longrightarrow>
   i + n \<le> length (objects (canvas s)) \<Longrightarrow>
     forEachObject_removeEmptyText n i s = Inr s"
  by (induction n arbitrary: i) auto

lemma endTextMode_frame:
  "endTextMode s = Inr s' \<Longrightarrow>
     state s' = (if state s = TEXT then NORMAL else state s) \<and>
     undoStack s' = undoStack s \<and> redoStack s' = redoStack s \<and>
     cropRegion s' = cropRegion s"
  by (auto simp: endTextMode_def getCurrentState_def Let_def
        split: sum.splits if_splits dest!: forEachObject_frame)


lemma endTextMode_no_empty_text:
  "\<forall>obj \<in> set (objects (canvas s)). \<not> (isType obj ''text'' \<and> otext obj = []) \<Longrightarrow>
     \<exists>s'. endTextMode s = Inr s'"
  by (simp add: endTextMode_def Let_def forEachObject_no_empty_text)

lemma endFreeDrawing_frame:
  "state (endFreeDrawing s) = (if state s = FREE_DRAWING then NORMAL else state s) \<and>
   undoStack (endFreeDrawing s) = undoStack s \<and>
   redoStack (endFreeDrawing s) = redoStack s \<and>
   cropRegion (endFreeDrawing s) = cropRegion s"
  by (simp add: endFreeDrawing_def effect_defs)


section \<open>Ending every mode\<close>

text \<open>
  \<^verbatim>\<open>endAll\<close> calls \<^verbatim>\<open>endCropping()\<close> without \<^verbatim>\<open>isApplying\<close>, so the cropper returns no
  descriptor and no image is loaded: \<^verbatim>\<open>endAll\<close> returns whenever \<^verbatim>\<open>endTextMode\<close> does, in
  the state NORMAL and with both stacks as they were.
\<close>

lemma endCropping_cancel:
  "endCropping env False s =
     Inr (if state s = CROP
          then fire EV_END_CROPPING PNone (callComponent (CropperEnd False) (s\<lparr>state := NORMAL\<rparr>))
          else s)"
  by (simp add: endCropping.simps cropper_end_def getCurrentState_def)

lemma endAll_eq:
  "endAll env s =
     (case endTextMode s of
        Inl e \<Rightarrow> Inl e
      | Inr s1 \<Rightarrow>
          Inr ((deactivateAll
                 (if state s1 = CROP
                  then fire EV_END_CROPPING PNone
                         (callComponent (CropperEnd False)
                            ((endFreeDrawing s1)\<lparr>state := NORMAL\<rparr>))
                  else endFreeDrawing s1))\<lparr>state := NORMAL\<rparr>))"
  by (simp add: endAll.simps endCropping_cancel endFreeDrawing_frame split: sum.splits)

lemma endAll_frame:
  "endAll env s = Inr s1 \<Longrightarrow>
     state s1 = NORMAL \<and> undoStack s1 = undoStack s \<and>
     redoStack s1 = redoStack s \<and> cropRegion s1 = cropRegion s"
  by (auto simp: endAll_eq deactivateAll_def effect_defs endFreeDrawing_frame
        split: sum.splits dest!: endTextMode_frame)


lemma endAll_no_empty_text:
  "\<forall>obj \<in> set (objects (canvas s)). \<not> (isType obj ''text'' \<and> otext obj = []) \<Longrightarrow>
     \<exists>s1. endAll env s = Inr s1"
  using endTextMode_no_empty_text [of s] by (auto simp: endAll_eq)

section \<open>Running a command\<close>

lemma runCallback_frame:
  "runCallback cb r s = Inr s' \<Longrightarrow>
     state s' = state s \<and> undoStack s' = undoStack s \<and> redoStack s' = redoStack s \<and>
     canvas s' = canvas s"
  by (cases "(cb, r, s)" rule: runCallback.cases)
     (auto simp: fire_def callbackAfterImageLoading_def loadImageUndoCallback_def
           split: result.splits if_splits)

lemma invoker_invoke_stacks:
  "invoker_invoke env cmd s = Inr s' \<Longrightarrow>
     undoStack s' = cmd # undoStack s \<and> redoStack s' = [] \<and> state s' = state s"
  by (auto simp: invoker_invoke_def invoker_clearRedoStack_def fire_def
           split: option.splits prod.splits if_splits dest!: runCallback_frame)

lemma execute_stacks:
  "execute env cmd s = Inr s' \<Longrightarrow>
     undoStack s' = cmd # undoStack s \<and> redoStack s' = [] \<and> state s' = NORMAL"
  by (auto simp: execute.simps split: sum.splits
        dest!: invoker_invoke_stacks endAll_frame)

section \<open>Entering a mode\<close>

text \<open>
  The three start operations run \<^verbatim>\<open>endAll\<close> (the exit of the text mode, of free drawing and
  of cropping, then \<^verbatim>\<open>deactivateAll\<close>) before they enter their mode, and enter it only
  when \<^verbatim>\<open>endAll\<close> has returned.
\<close>

lemma endAll_order:
  "endAll env s =
     (case endTextMode s of
        Inl e \<Rightarrow> Inl e
      | Inr s1 \<Rightarrow>
          (case endCropping env False (endFreeDrawing s1) of
             Inl e \<Rightarrow> Inl e
           | Inr s2 \<Rightarrow> Inr ((deactivateAll s2)\<lparr>state := NORMAL\<rparr>)))"
  by (simp add: endAll.simps)

lemma start_runs_endAll:
  "(endAll env s = Inr s1 \<longrightarrow>
      (getCurrentState s \<noteq> CROP \<longrightarrow>
         startCropping env s =
           Inr (fire EV_START_CROPPING PNone (callComponent CropperStart (s1\<lparr>state := CROP\<rparr>)))) \<and>
      (getCurrentState s \<noteq> FREE_DRAWING \<longrightarrow>
         startFreeDrawing env setting s =
           Inr (fire EV_START_FREE_DRAWING PNone
                  ((callComponent (FreeDrawingStart setting) s1)\<lparr>state := FREE_DRAWING\<rparr>))) \<and>
      startTextMode env s =
        Inr (s1\<lparr>state := TEXT, listener := Some (proxies s1), proxies := Suc (proxies s1),
                canvas := canvas_on (proxies s1)
                            ((canvas s1)\<lparr>selection := False, defaultCursor := ''text''\<rparr>)\<rparr>)) \<and>
   (endAll env s = Inl e \<longrightarrow>
      (getCurrentState s \<noteq> CROP \<longrightarrow> startCropping env s = Inl e) \<and>
      (getCurrentState s \<noteq> FREE_DRAWING \<longrightarrow> startFreeDrawing env setting s = Inl e) \<and>
      startTextMode env s = Inl e)"
  by (auto simp: startCropping_def startFreeDrawing_def startTextMode_def getCurrentState_def
        dest: endAll_frame)

text \<open>
  C1. The claim: every path into the crop, free-drawing or text mode, \<^verbatim>\<open>addText\<close> among
  them, first runs the exit of the text mode, of free drawing and of cropping and then
  deactivates the selection. \<^verbatim>\<open>addText\<close> does not. On the editor that \<^verbatim>\<open>startFreeDrawing()\<close>
  leaves, \<^verbatim>\<open>addText('hi')\<close> makes TEXT the current state and calls the text component and
  nothing else: the free-drawing component is never ended and no endFreeDrawing event is
  fired. \<^verbatim>\<open>startTextMode()\<close> on the same editor does end free drawing first.
\<close>

theorem addText_skips_exit_actions:
  "startFreeDrawing sampleActions None (init emptyCanvas) = Inr drawingEditor \<and>
   state drawingEditor = FREE_DRAWING \<and>
   addText (Some ''hi'') None drawingEditor =
     drawingEditor\<lparr>state := TEXT,
                    trace := trace drawingEditor @ [Called (TextAdd ''hi'' [])]\<rparr> \<and>
   startTextMode sampleActions drawingEditor =
     Inr (drawingEditor\<lparr>state := TEXT, listener := Some 0, proxies := 1,
            canvas := emptyCanvas\<lparr>selection := False, defaultCursor := ''text'',
                                   mouseDown := [0]\<rparr>,
            trace := trace drawingEditor @
                     [Called FreeDrawingEnd, Fired EV_END_FREE_DRAWING PNone]\<rparr>)"
  by (simp add: startFreeDrawing_def startTextMode_def addText_def endAll_eq endTextMode_def
        endFreeDrawing_def deactivateAll_def canvas_off_def canvas_on_def effect_defs
        sample_defs drawingEditor_def)

section \<open>Leaving a mode\<close>

text \<open>\<^verbatim>\<open>endFreeDrawing\<close> and \<^verbatim>\<open>endCropping\<close> return at once outside their mode.\<close>

lemma endFreeDrawing_guard:
  "getCurrentState s \<noteq> FREE_DRAWING \<Longrightarrow> endFreeDrawing s = s"
  by (simp add: endFreeDrawing_def)

lemma endCropping_guard:
  "getCurrentState s \<noteq> CROP \<Longrightarrow> endCropping env isApplying s = Inr s"
  by (simp add: endCropping.simps)

text \<open>
  The loop of \<^verbatim>\<open>endTextMode\<close> on a canvas that holds a path and, after it, an empty text
  object: the second round removes the text object, and the loop ends there.
\<close>

lemma sweep_path_then_text:
  "objects (canvas s) = [pathObj, emptyTextObj] \<Longrightarrow>
     forEachObject_removeEmptyText (Suc (Suc 0)) 0 s = Inr (obj_remove emptyTextObj s)"
proof -
  assume objs: "objects (canvas s) = [pathObj, emptyTextObj]"
  have path: "(isType pathObj ''text'' \<and> otext pathObj = []) = False"
    and empty: "(isType emptyTextObj ''text'' \<and> otext emptyTextObj = []) = True"
    by (simp_all add: isType_def pathObj_def emptyTextObj_def)
  have "forEachObject_removeEmptyText (Suc (Suc 0)) 0 s =
        forEachObject_removeEmptyText (Suc 0) (Suc 0) s"
    by (subst forEachObject_removeEmptyText.simps(2))
       (simp add: objs path del: forEachObject_removeEmptyText.simps)
  also have "\<dots> = forEachObject_removeEmptyText 0 (Suc (Suc 0)) (obj_remove emptyTextObj s)"
    by (subst forEachObject_removeEmptyText.simps(2))
       (simp add: objs empty del: forEachObject_removeEmptyText.simps)
  finally show ?thesis by simp
qed

lemma endTextMode_path_then_text:
  "objects (canvas s) = [pathObj, emptyTextObj] \<Longrightarrow>
     endTextMode s =
       Inr ((obj_remove emptyTextObj (if state s = TEXT then s\<lparr>state := NORMAL\<rparr> else s))
              \<lparr>canvas :=
                 canvas_off (listener s)
                   ((canvas (obj_remove emptyTextObj s))
                      \<lparr>selection := True, defaultCursor := ''default''\<rparr>)\<rparr>)"
proof -
  assume objs: "objects (canvas s) = [pathObj, emptyTextObj]"
  let ?s1 = "if state s = TEXT then s\<lparr>state := NORMAL\<rparr> else s"
  have objs1: "objects (canvas ?s1) = [pathObj, emptyTextObj]"
    using objs by simp
  have len: "length (objects (canvas ?s1)) = Suc (Suc 0)"
    using objs1 by simp
  have "endTextMode s =
        (case forEachObject_removeEmptyText (Suc (Suc 0)) 0 ?s1 of
           Inl e \<Rightarrow> Inl e
         | Inr s2 \<Rightarrow>
             Inr (s2\<lparr>canvas :=
                       canvas_off (listener s2)
                         ((canvas s2)\<lparr>selection := True, defaultCursor := ''default''\<rparr>)\<rparr>))"
    unfolding endTextMode_def Let_def getCurrentState_def len ..
  also have "\<dots> =
       Inr ((obj_remove emptyTextObj ?s1)
              \<lparr>canvas :=
                 canvas_off (listener s)
                   ((canvas (obj_remove emptyTextObj s))
                      \<lparr>selection := True, defaultCursor := ''default''\<rparr>)\<rparr>)"
    unfolding sweep_path_then_text [OF objs1]
    by (simp add: obj_remove_def onObjectRemoved_def fire_def)
  finally show ?thesis .
qed

text \<open>
  C3. The claim: every exit step returns at once when its mode is not the current one; in
  particular \<^verbatim>\<open>endTextMode()\<close> outside the text mode removes no object and leaves the
  selection flag, the cursor and the mouse handler alone. \<^verbatim>\<open>endTextMode\<close> guards only the
  assignment of the state. On the editor in the crop mode it leaves the state CROP, but it
  removes the empty text object (with its removeObject event), switches group selection on
  and sets the cursor to default. On the editor in the state NORMAL it removes the empty
  text object as well.
\<close>

theorem endTextMode_outside_text_mode:
  "state croppingEditor = CROP \<and>
   endTextMode croppingEditor =
     Inr (croppingEditor\<lparr>canvas := emptyCanvas\<lparr>objects := [pathObj]\<rparr>,
                          trace := [Fired EV_REMOVE_OBJECT (PObject emptyTextObj)]\<rparr>) \<and>
   state normalEditor = NORMAL \<and>
   endTextMode normalEditor =
     Inr (normalEditor\<lparr>canvas := emptyCanvas\<lparr>objects := [pathObj]\<rparr>,
                        trace := [Fired EV_REMOVE_OBJECT (PObject emptyTextObj)]\<rparr>)"
proof -
  have crop: "objects (canvas croppingEditor) = [pathObj, emptyTextObj]"
    and normal: "objects (canvas normalEditor) = [pathObj, emptyTextObj]"
    by (simp_all add: croppingEditor_def normalEditor_def emptyCanvas_def)
  have "endTextMode croppingEditor =
     Inr (croppingEditor\<lparr>canvas := emptyCanvas\<lparr>objects := [pathObj]\<rparr>,
                          trace := [Fired EV_REMOVE_OBJECT (PObject emptyTextObj)]\<rparr>)"
    unfolding endTextMode_path_then_text [OF crop]
    by (simp add: obj_remove_def onObjectRemoved_def canvas_off_def effect_defs
          sample_defs croppingEditor_def)
  moreover have "endTextMode normalEditor =
     Inr (normalEditor\<lparr>canvas := emptyCanvas\<lparr>objects := [pathObj]\<rparr>,
                        trace := [Fired EV_REMOVE_OBJECT (PObject emptyTextObj)]\<rparr>)"
    unfolding endTextMode_path_then_text [OF normal]
    by (simp add: obj_remove_def onObjectRemoved_def canvas_off_def effect_defs
          sample_defs normalEditor_def)
  ultimately show ?thesis
    by (simp add: croppingEditor_def normalEditor_def)
qed

text \<open>The exit of the text mode, and then \<^verbatim>\<open>endAll\<close>, on the editor in the text mode.\<close>

lemma text_endTextMode:
  "endTextMode textEditor =
     Inr (textEditor\<lparr>state := NORMAL,
            canvas := emptyCanvas\<lparr>objects := [pathObj], activeObject := Some pathObj\<rparr>,
            trace := [Fired EV_REMOVE_OBJECT (PObject emptyTextObj)]\<rparr>)"
proof -
  have objs: "objects (canvas textEditor) = [pathObj, emptyTextObj]"
    by (simp add: textEditor_def emptyCanvas_def)
  show ?thesis
    unfolding endTextMode_path_then_text [OF objs]
    by (simp add: obj_remove_def onObjectRemoved_def canvas_off_def effect_defs
          sample_defs textEditor_def)
qed

lemma text_endAll:
  "endAll sampleActions textEditor =
     Inr (textEditor\<lparr>state := NORMAL,
            canvas := emptyCanvas\<lparr>objects := [pathObj]\<rparr>,
            trace := [Fired EV_REMOVE_OBJECT (PObject emptyTextObj)]\<rparr>)"
  unfolding endAll_eq text_endTextMode
  by (simp add: endFreeDrawing_def deactivateAll_def effect_defs emptyCanvas_def textEditor_def)

text \<open>
  C5. The claim: \<^verbatim>\<open>startTextMode()\<close> in the text mode is a no-op. \<^verbatim>\<open>startTextMode\<close> calls
  \<^verbatim>\<open>endAll()\<close> before it looks at the state, so the check never holds. On the editor in the
  text mode the exit actions run again (the empty text object is removed, the selected path
  is deactivated) and a new mouse handler replaces the registered one.
\<close>

theorem startTextMode_in_text_mode:
  "state textEditor = TEXT \<and>
   startTextMode sampleActions textEditor =
     Inr (textEditor\<lparr>listener := Some 1, proxies := 2,
            canvas := emptyCanvas\<lparr>objects := [pathObj], selection := False,
                                   defaultCursor := ''text'', mouseDown := [1]\<rparr>,
            trace := [Fired EV_REMOVE_OBJECT (PObject emptyTextObj)]\<rparr>)"
  unfolding startTextMode_def text_endAll
  by (simp add: canvas_on_def getCurrentState_def emptyCanvas_def textEditor_def)

section \<open>Undo\<close>




section \<open>Guards of the public operations\<close>

text \<open>
  C9. \<^verbatim>\<open>loadImageFromFile\<close> without a file, and \<^verbatim>\<open>loadImageFromURL\<close> with a falsy url or a
  falsy image name, return with the editor as it was: the state, the stacks, the canvas and
  the record of events and component calls are all unchanged, and no command is run.
\<close>

theorem loadImage_falsy_arguments:
  "loadImageFromFile env None imgName s = Inr s \<and>
   (\<not> truthy imgUrl \<or> \<not> truthy imgName \<longrightarrow> loadImageFromURL env imgUrl imgName s = Inr s)"
  by (auto simp: loadImageFromFile_def loadImageFromURL.simps)

theorem loadImage_falsy_arguments_witness:
  "loadImageFromFile sampleActions None (Some ''lena'') textEditor = Inr textEditor \<and>
   \<not> truthy (Some []) \<and>
   loadImageFromURL sampleActions (Some []) (Some ''lena'') textEditor = Inr textEditor \<and>
   \<not> truthy None \<and>
   loadImageFromURL sampleActions (Some ''http://url/testImage.png'') None textEditor
     = Inr textEditor \<and>
   state textEditor = TEXT"
  using loadImage_falsy_arguments [where env = sampleActions and imgName = "Some ''lena''"
          and s = textEditor and imgUrl = "Some []"]
        loadImage_falsy_arguments [where env = sampleActions and imgName = None
          and s = textEditor and imgUrl = "Some ''http://url/testImage.png''"]
  by (simp add: textEditor_def)

text \<open>
  C10. \<^verbatim>\<open>changeText\<close> and \<^verbatim>\<open>changeTextStyle\<close>, called while the state is not TEXT or while
  the canvas has no active object, return with the editor as it was: the text component is
  not called, and the state, the stacks and the canvas are unchanged.
\<close>

theorem changeText_guard:
  "getCurrentState s \<noteq> TEXT \<or> activeObject (canvas s) = None \<Longrightarrow>
     changeText newText s = s \<and> changeTextStyle styleObj s = s"
  by (auto simp: changeText_def changeTextStyle_def)

theorem changeText_guard_witness:
  "getCurrentState croppingEditor \<noteq> TEXT \<and>
   changeText ''change text'' croppingEditor = croppingEditor \<and>
   changeTextStyle [(''fontStyle'', ''italic'')] croppingEditor = croppingEditor \<and>
   getCurrentState (textEditor\<lparr>canvas := emptyCanvas\<rparr>) = TEXT \<and>
   activeObject (canvas (textEditor\<lparr>canvas := emptyCanvas\<rparr>)) = None \<and>
   changeText ''change text'' (textEditor\<lparr>canvas := emptyCanvas\<rparr>)
     = textEditor\<lparr>canvas := emptyCanvas\<rparr> \<and>
   changeTextStyle [(''fontStyle'', ''italic'')] (textEditor\<lparr>canvas := emptyCanvas\<rparr>)
     = textEditor\<lparr>canvas := emptyCanvas\<rparr>"
proof -
  have a: "getCurrentState croppingEditor \<noteq> TEXT"
    by (simp add: getCurrentState_def croppingEditor_def)
  have b: "activeObject (canvas (textEditor\<lparr>canvas := emptyCanvas\<rparr>)) = None"
    by (simp add: emptyCanvas_def)
  have c: "getCurrentState (textEditor\<lparr>canvas := emptyCanvas\<rparr>) = TEXT"
    by (simp add: getCurrentState_def textEditor_def)
  show ?thesis
    using a b c
      changeText_guard [where s = croppingEditor and newText = "''change text''"
         and styleObj = "[(''fontStyle'', ''italic'')]"]
      changeText_guard [where s = "textEditor\<lparr>canvas := emptyCanvas\<rparr>"
         and newText = "''change text''" and styleObj = "[(''fontStyle'', ''italic'')]"]
    by simp
qed

section \<open>Ending a crop\<close>

lemma endCropping_state:
  "endCropping env isApplying s = Inr s' \<Longrightarrow> getCurrentState s = CROP \<Longrightarrow> state s' = NORMAL"
  by (auto simp: endCropping.simps loadImageFromURL.simps cropper_end_def effect_defs
        split: option.splits if_splits dest: execute_stacks)

text \<open>
  C4. \<^verbatim>\<open>endCropping(isApplying)\<close> returns at once when the state is not CROP. In the state
  CROP it sets the state to NORMAL, asks the cropper to finish, fires endCropping, and then
  calls \<^verbatim>\<open>loadImageFromURL\<close> with the url and the name of the descriptor exactly when the
  cropper returned one; whenever it returns, the state is NORMAL. Whenever \<^verbatim>\<open>startCropping()\<close>
  returns, the state is CROP and \<^verbatim>\<open>endCropping(false)\<close> after it returns in the state
  NORMAL, with both stacks as they were before \<^verbatim>\<open>startCropping()\<close> and with the cropper's
  end and the endCropping event as its only effects: no image is loaded.
\<close>

theorem endCropping_contract:
  "(getCurrentState s \<noteq> CROP \<longrightarrow> endCropping env isApplying s = Inr s) \<and>
   (getCurrentState s = CROP \<longrightarrow>
      endCropping env isApplying s =
        (case cropper_end isApplying (s\<lparr>state := NORMAL\<rparr>) of
           None \<Rightarrow>
             Inr (fire EV_END_CROPPING PNone
                    (callComponent (CropperEnd isApplying) (s\<lparr>state := NORMAL\<rparr>)))
         | Some d \<Rightarrow>
             loadImageFromURL env (Some (url d)) (Some (imageName d))
               (fire EV_END_CROPPING PNone
                  (callComponent (CropperEnd isApplying) (s\<lparr>state := NORMAL\<rparr>)))) \<and>
      (\<forall>s'. endCropping env isApplying s = Inr s' \<longrightarrow> state s' = NORMAL)) \<and>
   (\<forall>s1. startCropping env s = Inr s1 \<longrightarrow>
      state s1 = CROP \<and>
      (\<exists>s2. endCropping env False s1 = Inr s2 \<and> state s2 = NORMAL \<and>
         undoStack s2 = undoStack s \<and> redoStack s2 = redoStack s \<and>
         trace s2 = trace s1 @ [Called (CropperEnd False), Fired EV_END_CROPPING PNone]))"
proof (intro conjI impI allI)
  assume "getCurrentState s \<noteq> CROP"
  then show "endCropping env isApplying s = Inr s"
    by (rule endCropping_guard)
next
  assume "getCurrentState s = CROP"
  then show "endCropping env isApplying s =
        (case cropper_end isApplying (s\<lparr>state := NORMAL\<rparr>) of
           None \<Rightarrow>
             Inr (fire EV_END_CROPPING PNone
                    (callComponent (CropperEnd isApplying) (s\<lparr>state := NORMAL\<rparr>)))
         | Some d \<Rightarrow>
             loadImageFromURL env (Some (url d)) (Some (imageName d))
               (fire EV_END_CROPPING PNone
                  (callComponent (CropperEnd isApplying) (s\<lparr>state := NORMAL\<rparr>))))"
    by (simp add: endCropping.simps)
next
  fix s'
  assume "getCurrentState s = CROP" "endCropping env isApplying s = Inr s'"
  then show "state s' = NORMAL"
    by (simp add: endCropping_state)
next
  fix s1
  assume start: "startCropping env s = Inr s1"
  have crop: "state s1 = CROP \<and> undoStack s1 = undoStack s \<and> redoStack s1 = redoStack s"
  proof (cases "getCurrentState s = CROP")
    case True
    with start show ?thesis
      by (simp add: startCropping_def getCurrentState_def)
  next
    case False
    with start obtain s0 where s0: "endAll env s = Inr s0"
      and s1: "s1 = fire EV_START_CROPPING PNone (callComponent CropperStart (s0\<lparr>state := CROP\<rparr>))"
      by (auto simp: startCropping_def split: sum.splits)
    from endAll_frame [OF s0] s1 show ?thesis
      by (simp add: effect_defs)
  qed
  then show "state s1 = CROP" ..
  have stop: "endCropping env False s1 =
      Inr (fire EV_END_CROPPING PNone (callComponent (CropperEnd False) (s1\<lparr>state := NORMAL\<rparr>)))"
    using crop by (simp add: endCropping_cancel)
  show "\<exists>s2. endCropping env False s1 = Inr s2 \<and> state s2 = NORMAL \<and>
         undoStack s2 = undoStack s \<and> redoStack s2 = redoStack s \<and>
         trace s2 = trace s1 @ [Called (CropperEnd False), Fired EV_END_CROPPING PNone]"
    using crop stop by (simp add: effect_defs)
qed

text \<open>
  Applying the crop on the crop-mode editor step by step: the exit of the crop, then
  \<^verbatim>\<open>endAll\<close> inside \<^verbatim>\<open>execute\<close>, then the load-image command.
\<close>

lemma crop_step:
  "fire EV_END_CROPPING PNone
     (callComponent (CropperEnd True) (croppingEditor\<lparr>state := NORMAL\<rparr>)) = croppedEditor"
  by (simp add: effect_defs croppingEditor_def croppedEditor_def)

lemma cropped_endAll:
  "endAll sampleActions croppedEditor =
     Inr (croppedEditor\<lparr>canvas := emptyCanvas\<lparr>objects := [pathObj]\<rparr>,
            trace := trace croppedEditor @ [Fired EV_REMOVE_OBJECT (PObject emptyTextObj)]\<rparr>)"
proof -
  have objs: "objects (canvas croppedEditor) = [pathObj, emptyTextObj]"
    by (simp add: croppedEditor_def croppingEditor_def emptyCanvas_def)
  have sweep: "endTextMode croppedEditor =
     Inr (croppedEditor\<lparr>canvas := emptyCanvas\<lparr>objects := [pathObj]\<rparr>,
            trace := trace croppedEditor @ [Fired EV_REMOVE_OBJECT (PObject emptyTextObj)]\<rparr>)"
    unfolding endTextMode_path_then_text [OF objs]
    by (simp add: obj_remove_def onObjectRemoved_def canvas_off_def effect_defs
          sample_defs croppedEditor_def croppingEditor_def)
  show ?thesis
    unfolding endAll_eq sweep
    by (simp add: endFreeDrawing_def deactivateAll_def effect_defs emptyCanvas_def
          croppedEditor_def croppingEditor_def)
qed

lemma cropped_load:
  "loadImageFromURL sampleActions (Some ''data:image/png;base64,AAAA'') (Some ''lena'')
      croppedEditor =
     Inr (croppedEditor\<lparr>canvas := emptyCanvas\<lparr>objects := [pathObj]\<rparr>,
            undoStack := [loadImageCommand (Some ''lena'') (Some ''data:image/png;base64,AAAA'')],
            trace := trace croppedEditor @
                     [Fired EV_REMOVE_OBJECT (PObject emptyTextObj),
                      Fired EV_PUSH_UNDO_STACK PNone,
                      Fired EV_LOAD_IMAGE (PDimension (Some 640) (Some 480) 300 150)]\<rparr>)"
proof -
  have cb: "executeCallback (loadImageCommand n u) = Some CallbackAfterImageLoading"
    and nm: "cname (loadImageCommand n u) = CMD_LOAD_IMAGE" for n u
    by (simp_all add: loadImageCommand_def setExecuteCallback_def setUndoCallback_def create_def)
  have "loadImageFromURL sampleActions (Some ''data:image/png;base64,AAAA'') (Some ''lena'')
          croppedEditor =
        invoker_invoke sampleActions
          (loadImageCommand (Some ''lena'') (Some ''data:image/png;base64,AAAA''))
          (croppedEditor\<lparr>canvas := emptyCanvas\<lparr>objects := [pathObj]\<rparr>,
            trace := trace croppedEditor @ [Fired EV_REMOVE_OBJECT (PObject emptyTextObj)]\<rparr>)"
    by (simp add: loadImageFromURL.simps execute.simps cropped_endAll)
  also have "\<dots> =
     Inr (croppedEditor\<lparr>canvas := emptyCanvas\<lparr>objects := [pathObj]\<rparr>,
            undoStack := [loadImageCommand (Some ''lena'') (Some ''data:image/png;base64,AAAA'')],
            trace := trace croppedEditor @
                     [Fired EV_REMOVE_OBJECT (PObject emptyTextObj),
                      Fired EV_PUSH_UNDO_STACK PNone,
                      Fired EV_LOAD_IMAGE (PDimension (Some 640) (Some 480) 300 150)]\<rparr>)"
    by (simp add: invoker_invoke_def invoker_clearRedoStack_def cb nm
        callbackAfterImageLoading_def fire_def sampleActions_def emptyCanvas_def
        croppedEditor_def croppingEditor_def)
  finally show ?thesis .
qed

lemma drawing_startCropping:
  "startCropping sampleActions drawingEditor =
     Inr (drawingEditor\<lparr>state := CROP,
            trace := trace drawingEditor @
                     [Called FreeDrawingEnd, Fired EV_END_FREE_DRAWING PNone,
                      Called CropperStart, Fired EV_START_CROPPING PNone]\<rparr>)"
  by (simp add: startCropping_def endAll_eq endTextMode_def endFreeDrawing_def
        deactivateAll_def canvas_off_def effect_defs sample_defs drawingEditor_def)

theorem endCropping_contract_witness:
  "getCurrentState drawingEditor \<noteq> CROP \<and>
   endCropping sampleActions True drawingEditor = Inr drawingEditor \<and>
   getCurrentState croppingEditor = CROP \<and>
   cropper_end True (croppingEditor\<lparr>state := NORMAL\<rparr>) =
     Some \<lparr>url = ''data:image/png;base64,AAAA'', imageName = ''lena''\<rparr> \<and>
   endCropping sampleActions True croppingEditor =
     Inr (croppedEditor\<lparr>canvas := emptyCanvas\<lparr>objects := [pathObj]\<rparr>,
            undoStack := [loadImageCommand (Some ''lena'') (Some ''data:image/png;base64,AAAA'')],
            trace := trace croppedEditor @
                     [Fired EV_REMOVE_OBJECT (PObject emptyTextObj),
                      Fired EV_PUSH_UNDO_STACK PNone,
                      Fired EV_LOAD_IMAGE (PDimension (Some 640) (Some 480) 300 150)]\<rparr>) \<and>
   state croppedEditor = NORMAL \<and>
   cropper_end False (croppingEditor\<lparr>state := NORMAL\<rparr>) = None \<and>
   endCropping sampleActions False croppingEditor =
     Inr (fire EV_END_CROPPING PNone
            (callComponent (CropperEnd False) (croppingEditor\<lparr>state := NORMAL\<rparr>))) \<and>
   startCropping sampleActions drawingEditor =
     Inr (drawingEditor\<lparr>state := CROP,
            trace := trace drawingEditor @
                     [Called FreeDrawingEnd, Fired EV_END_FREE_DRAWING PNone,
                      Called CropperStart, Fired EV_START_CROPPING PNone]\<rparr>) \<and>
   (\<exists>s2. endCropping sampleActions False
            (drawingEditor\<lparr>state := CROP,
               trace := trace drawingEditor @
                        [Called FreeDrawingEnd, Fired EV_END_FREE_DRAWING PNone,
                         Called CropperStart, Fired EV_START_CROPPING PNone]\<rparr>) = Inr s2 \<and>
         state s2 = NORMAL \<and>
         undoStack s2 = undoStack drawingEditor \<and> redoStack s2 = redoStack drawingEditor \<and>
         trace s2 =
           trace drawingEditor @
             [Called FreeDrawingEnd, Fired EV_END_FREE_DRAWING PNone,
              Called CropperStart, Fired EV_START_CROPPING PNone,
              Called (CropperEnd False), Fired EV_END_CROPPING PNone])"
proof -
  have a: "getCurrentState drawingEditor \<noteq> CROP"
    by (simp add: getCurrentState_def drawingEditor_def)
  have b: "getCurrentState croppingEditor = CROP"
    by (simp add: getCurrentState_def croppingEditor_def)
  have c: "cropper_end True (croppingEditor\<lparr>state := NORMAL\<rparr>) =
     Some \<lparr>url = ''data:image/png;base64,AAAA'', imageName = ''lena''\<rparr>"
    by (simp add: cropper_end_def croppingEditor_def)
  have d: "cropper_end False (croppingEditor\<lparr>state := NORMAL\<rparr>) = None"
    by (simp add: cropper_end_def)
  have e: "state croppedEditor = NORMAL"
    by (simp add: croppedEditor_def)
  note on_drawing = endCropping_contract [where s = drawingEditor and env = sampleActions
        and isApplying = True]
  have p1: "endCropping sampleActions True drawingEditor = Inr drawingEditor"
    using a on_drawing by blast
  have "\<exists>s2. endCropping sampleActions False
            (drawingEditor\<lparr>state := CROP,
               trace := trace drawingEditor @
                        [Called FreeDrawingEnd, Fired EV_END_FREE_DRAWING PNone,
                         Called CropperStart, Fired EV_START_CROPPING PNone]\<rparr>) = Inr s2 \<and>
         state s2 = NORMAL \<and>
         undoStack s2 = undoStack drawingEditor \<and> redoStack s2 = redoStack drawingEditor \<and>
         trace s2 =
           trace (drawingEditor\<lparr>state := CROP,
               trace := trace drawingEditor @
                        [Called FreeDrawingEnd, Fired EV_END_FREE_DRAWING PNone,
                         Called CropperStart, Fired EV_START_CROPPING PNone]\<rparr>) @
             [Called (CropperEnd False), Fired EV_END_CROPPING PNone]"
    using drawing_startCropping on_drawing by blast
  then have p5: "\<exists>s2. endCropping sampleActions False
            (drawingEditor\<lparr>state := CROP,
               trace := trace drawingEditor @
                        [Called FreeDrawingEnd, Fired EV_END_FREE_DRAWING PNone,
                         Called CropperStart, Fired EV_START_CROPPING PNone]\<rparr>) = Inr s2 \<and>
         state s2 = NORMAL \<and>
         undoStack s2 = undoStack drawingEditor \<and> redoStack s2 = redoStack drawingEditor \<and>
         trace s2 =
           trace drawingEditor @
             [Called FreeDrawingEnd, Fired EV_END_FREE_DRAWING PNone,
              Called CropperStart, Fired EV_START_CROPPING PNone,
              Called (CropperEnd False), Fired EV_END_CROPPING PNone]"
    by simp
  have "endCropping sampleActions True croppingEditor =
        (case cropper_end True (croppingEditor\<lparr>state := NORMAL\<rparr>) of
           None \<Rightarrow>
             Inr (fire EV_END_CROPPING PNone
                    (callComponent (CropperEnd True) (croppingEditor\<lparr>state := NORMAL\<rparr>)))
         | Some d \<Rightarrow>
             loadImageFromURL sampleActions (Some (url d)) (Some (imageName d))
               (fire EV_END_CROPPING PNone
                  (callComponent (CropperEnd True) (croppingEditor\<lparr>state := NORMAL\<rparr>))))"
    using b endCropping_contract [where s = croppingEditor and env = sampleActions
        and isApplying = True]
    by blast
  then have p2: "endCropping sampleActions True croppingEditor =
     Inr (croppedEditor\<lparr>canvas := emptyCanvas\<lparr>objects := [pathObj]\<rparr>,
            undoStack := [loadImageCommand (Some ''lena'') (Some ''data:image/png;base64,AAAA'')],
            trace := trace croppedEditor @
                     [Fired EV_REMOVE_OBJECT (PObject emptyTextObj),
                      Fired EV_PUSH_UNDO_STACK PNone,
                      Fired EV_LOAD_IMAGE (PDimension (Some 640) (Some 480) 300 150)]\<rparr>)"
    unfolding c crop_step by (simp add: cropped_load)
  have "endCropping sampleActions False croppingEditor =
        (case cropper_end False (croppingEditor\<lparr>state := NORMAL\<rparr>) of
           None \<Rightarrow>
             Inr (fire EV_END_CROPPING PNone
                    (callComponent (CropperEnd False) (croppingEditor\<lparr>state := NORMAL\<rparr>)))
         | Some d \<Rightarrow>
             loadImageFromURL sampleActions (Some (url d)) (Some (imageName d))
               (fire EV_END_CROPPING PNone
                  (callComponent (CropperEnd False) (croppingEditor\<lparr>state := NORMAL\<rparr>))))"
    using b endCropping_contract [where s = croppingEditor and env = sampleActions
        and isApplying = False]
    by blast
  then have p3: "endCropping sampleActions False croppingEditor =
     Inr (fire EV_END_CROPPING PNone
            (callComponent (CropperEnd False) (croppingEditor\<lparr>state := NORMAL\<rparr>)))"
    unfolding d by simp
  from a p1 b c p2 e d p3 drawing_startCropping p5 show ?thesis
    by (intro conjI)
qed

section \<open>Commands run in the state NORMAL\<close>

text \<open>
  C6. Every public operation that changes the document through a command (clearObjects,
  flipX, flipY, resetFlip, rotate, setAngle, removeActiveObject, and loadImageFromURL and
  loadImageFromFile when their arguments are truthy) goes through \<^verbatim>\<open>execute\<close>, and
  \<^verbatim>\<open>endAll\<close> runs first. When \<^verbatim>\<open>endAll\<close> returns, the state it returns is NORMAL and the
  invoker runs the operation's command in exactly that state. When \<^verbatim>\<open>endAll\<close> raises, the
  operation raises the same error and the command is not run at all.
\<close>

theorem mutations_run_in_normal_mode:
  "(\<forall>s1. endAll env s = Inr s1 \<longrightarrow>
      state s1 = NORMAL \<and>
      execute env cmd s = invoker_invoke env cmd s1 \<and>
      clearObjects env s =
        invoker_invoke env
          (setExecuteCallback (Fire EV_CLEAR_OBJECTS) (create CMD_CLEAR_OBJECTS [])) s1 \<and>
      flipX env s = invoker_invoke env (flip_type ''flipX'') s1 \<and>
      flipY env s = invoker_invoke env (flip_type ''flipY'') s1 \<and>
      resetFlip env s = invoker_invoke env (flip_type ''reset'') s1 \<and>
      rotate_angle env angle s = invoker_invoke env (rotate_type ''rotate'' angle) s1 \<and>
      setAngle env angle s = invoker_invoke env (rotate_type ''setAngle'' angle) s1 \<and>
      removeActiveObject env s =
        invoker_invoke env (create CMD_REMOVE_OBJECT [ATarget (activeTarget (canvas s))]) s1 \<and>
      (truthy imgName \<and> truthy imgUrl \<longrightarrow>
         loadImageFromURL env imgUrl imgName s =
           invoker_invoke env (loadImageCommand imgName imgUrl) s1) \<and>
      (truthy (Some (objectURL f)) \<and>
       truthy (if truthy imgName then imgName else Some (fileName f)) \<longrightarrow>
         loadImageFromFile env (Some f) imgName s =
           invoker_invoke env
             (loadImageCommand (if truthy imgName then imgName else Some (fileName f))
                (Some (objectURL f))) s1)) \<and>
   (\<forall>e. endAll env s = Inl e \<longrightarrow>
      execute env cmd s = Inl e \<and> clearObjects env s = Inl e \<and>
      flipX env s = Inl e \<and> flipY env s = Inl e \<and> resetFlip env s = Inl e \<and>
      rotate_angle env angle s = Inl e \<and> setAngle env angle s = Inl e \<and>
      removeActiveObject env s = Inl e \<and>
      (truthy imgName \<and> truthy imgUrl \<longrightarrow> loadImageFromURL env imgUrl imgName s = Inl e) \<and>
      (truthy (Some (objectURL f)) \<and>
       truthy (if truthy imgName then imgName else Some (fileName f)) \<longrightarrow>
         loadImageFromFile env (Some f) imgName s = Inl e))"
proof (intro conjI allI impI)
  fix s1
  assume s1: "endAll env s = Inr s1"
  show "state s1 = NORMAL"
    using endAll_frame [OF s1] by simp
  have run: "execute env c s = invoker_invoke env c s1" for c
    using s1 by (simp add: execute.simps)
  show "execute env cmd s = invoker_invoke env cmd s1"
    by (rule run)
  show "clearObjects env s =
        invoker_invoke env
          (setExecuteCallback (Fire EV_CLEAR_OBJECTS) (create CMD_CLEAR_OBJECTS [])) s1"
    by (simp add: clearObjects_def run)
  show "flipX env s = invoker_invoke env (flip_type ''flipX'') s1"
    by (simp add: flipX_def flip_def run)
  show "flipY env s = invoker_invoke env (flip_type ''flipY'') s1"
    by (simp add: flipY_def flip_def run)
  show "resetFlip env s = invoker_invoke env (flip_type ''reset'') s1"
    by (simp add: resetFlip_def flip_def run)
  show "rotate_angle env angle s = invoker_invoke env (rotate_type ''rotate'' angle) s1"
    by (simp add: rotate_angle_def rotate_priv_def run)
  show "setAngle env angle s = invoker_invoke env (rotate_type ''setAngle'' angle) s1"
    by (simp add: setAngle_def rotate_priv_def run)
  show "removeActiveObject env s =
        invoker_invoke env (create CMD_REMOVE_OBJECT [ATarget (activeTarget (canvas s))]) s1"
    by (simp add: removeActiveObject_def run)
  show "loadImageFromURL env imgUrl imgName s =
           invoker_invoke env (loadImageCommand imgName imgUrl) s1"
    if "truthy imgName \<and> truthy imgUrl"
    using that by (simp add: loadImageFromURL.simps run)
  show "loadImageFromFile env (Some f) imgName s =
           invoker_invoke env
             (loadImageCommand (if truthy imgName then imgName else Some (fileName f))
                (Some (objectURL f))) s1"
    if "truthy (Some (objectURL f)) \<and>
        truthy (if truthy imgName then imgName else Some (fileName f))"
    using that by (simp add: loadImageFromFile_def loadImageFromURL.simps run)
next
  fix e
  assume e: "endAll env s = Inl e"
  have run: "execute env c s = Inl e" for c
    using e by (simp add: execute.simps)
  show "execute env cmd s = Inl e"
    by (rule run)
  show "clearObjects env s = Inl e"
    by (simp add: clearObjects_def run)
  show "flipX env s = Inl e"
    by (simp add: flipX_def flip_def run)
  show "flipY env s = Inl e"
    by (simp add: flipY_def flip_def run)
  show "resetFlip env s = Inl e"
    by (simp add: resetFlip_def flip_def run)
  show "rotate_angle env angle s = Inl e"
    by (simp add: rotate_angle_def rotate_priv_def run)
  show "setAngle env angle s = Inl e"
    by (simp add: setAngle_def rotate_priv_def run)
  show "removeActiveObject env s = Inl e"
    by (simp add: removeActiveObject_def run)
  show "loadImageFromURL env imgUrl imgName s = Inl e"
    if "truthy imgName \<and> truthy imgUrl"
    using that by (simp add: loadImageFromURL.simps run)
  show "loadImageFromFile env (Some f) imgName s = Inl e"
    if "truthy (Some (objectURL f)) \<and>
        truthy (if truthy imgName then imgName else Some (fileName f))"
    using that by (simp add: loadImageFromFile_def loadImageFromURL.simps run)
qed

theorem mutations_run_in_normal_mode_witness:
  "state textEditor = TEXT \<and>
   endAll sampleActions textEditor =
     Inr (textEditor\<lparr>state := NORMAL,
            canvas := emptyCanvas\<lparr>objects := [pathObj]\<rparr>,
            trace := [Fired EV_REMOVE_OBJECT (PObject emptyTextObj)]\<rparr>) \<and>
   truthy (Some ''lena'') \<and> truthy (Some ''http://url/testImage.png'') \<and>
   loadImageFromURL sampleActions (Some ''http://url/testImage.png'') (Some ''lena'') textEditor =
     invoker_invoke sampleActions
       (loadImageCommand (Some ''lena'') (Some ''http://url/testImage.png''))
       (textEditor\<lparr>state := NORMAL,
            canvas := emptyCanvas\<lparr>objects := [pathObj]\<rparr>,
            trace := [Fired EV_REMOVE_OBJECT (PObject emptyTextObj)]\<rparr>) \<and>
   truthy (Some (objectURL photoFile)) \<and> truthy (Some (fileName photoFile)) \<and>
   loadImageFromFile sampleActions (Some photoFile) None textEditor =
     invoker_invoke sampleActions
       (loadImageCommand (Some ''photo.png'') (Some ''blob:0001''))
       (textEditor\<lparr>state := NORMAL,
            canvas := emptyCanvas\<lparr>objects := [pathObj]\<rparr>,
            trace := [Fired EV_REMOVE_OBJECT (PObject emptyTextObj)]\<rparr>) \<and>
   removeActiveObject sampleActions textEditor =
     invoker_invoke sampleActions (create CMD_REMOVE_OBJECT [ATarget (Some (TObject pathObj))])
       (textEditor\<lparr>state := NORMAL,
            canvas := emptyCanvas\<lparr>objects := [pathObj]\<rparr>,
            trace := [Fired EV_REMOVE_OBJECT (PObject emptyTextObj)]\<rparr>) \<and>
   endAll sampleActions (textEditor\<lparr>canvas := emptyCanvas\<lparr>objects := [emptyTextObj, pathObj]\<rparr>\<rparr>)
     = Inl TypeError \<and>
   flipX sampleActions (textEditor\<lparr>canvas := emptyCanvas\<lparr>objects := [emptyTextObj, pathObj]\<rparr>\<rparr>)
     = Inl TypeError"
proof -
  let ?normal = "textEditor\<lparr>state := NORMAL,
            canvas := emptyCanvas\<lparr>objects := [pathObj]\<rparr>,
            trace := [Fired EV_REMOVE_OBJECT (PObject emptyTextObj)]\<rparr>"
  let ?broken = "textEditor\<lparr>canvas := emptyCanvas\<lparr>objects := [emptyTextObj, pathObj]\<rparr>\<rparr>"
  have a: "state textEditor = TEXT"
    by (simp add: textEditor_def)
  have b: "truthy (Some ''lena'')" "truthy (Some ''http://url/testImage.png'')"
      "truthy (Some (objectURL photoFile))" "truthy (Some (fileName photoFile))"
    by (simp_all add: photoFile_def)
  have c: "\<not> truthy None"
    by simp
  have d: "activeTarget (canvas textEditor) = Some (TObject pathObj)"
    by (simp add: activeTarget_def textEditor_def emptyCanvas_def)
  have e: "objectURL photoFile = ''blob:0001''" "fileName photoFile = ''photo.png''"
    by (simp_all add: photoFile_def)
  have raised: "endAll sampleActions ?broken = Inl TypeError"
    by (simp add: endAll_eq endTextMode_def getCurrentState_def isType_def obj_remove_def
          onObjectRemoved_def fire_def textEditor_def emptyCanvas_def emptyTextObj_def
          pathObj_def)
  from mutations_run_in_normal_mode [where env = sampleActions and s = textEditor
      and imgName = "Some ''lena''" and imgUrl = "Some ''http://url/testImage.png''"]
    text_endAll b
  have from_url: "loadImageFromURL sampleActions (Some ''http://url/testImage.png'') (Some ''lena'')
      textEditor =
     invoker_invoke sampleActions
       (loadImageCommand (Some ''lena'') (Some ''http://url/testImage.png'')) ?normal"
    and removal: "removeActiveObject sampleActions textEditor =
     invoker_invoke sampleActions
       (create CMD_REMOVE_OBJECT [ATarget (activeTarget (canvas textEditor))]) ?normal"
    by blast+
  from mutations_run_in_normal_mode [where env = sampleActions and s = textEditor
      and imgName = None and f = photoFile]
    text_endAll b c
  have "loadImageFromFile sampleActions (Some photoFile) None textEditor =
     invoker_invoke sampleActions
       (loadImageCommand (if truthy None then None else Some (fileName photoFile))
          (Some (objectURL photoFile))) ?normal"
    by simp
  then have from_file: "loadImageFromFile sampleActions (Some photoFile) None textEditor =
     invoker_invoke sampleActions
       (loadImageCommand (Some ''photo.png'') (Some ''blob:0001'')) ?normal"
    by (simp add: e)
  from mutations_run_in_normal_mode [where env = sampleActions and s = ?broken] raised
  have flipped: "flipX sampleActions ?broken = Inl TypeError"
    by blast
  from a text_endAll b from_url from_file removal [unfolded d] raised flipped show ?thesis
    by (intro conjI)
qed

section \<open>A new action ends the redo history\<close>

text \<open>
  C7. Whatever the redo stack held: after a command has been executed through \<^verbatim>\<open>execute\<close>,
  and after the \<^verbatim>\<open>object:added\<close> handler has recorded an object that is no crop zone and
  carries no stamp, the redo stack is empty and the new command is on top of the undo
  stack, above the commands that were there.
\<close>

theorem new_action_clears_redo_stack:
  "(execute env cmd s = Inr s' \<longrightarrow> redoStack s' = [] \<and> undoStack s' = cmd # undoStack s) \<and>
   (\<not> isType obj ''cropzone'' \<and> \<not> hasStamp obj \<longrightarrow>
      redoStack (onObjectAdded obj s) = [] \<and>
      undoStack (onObjectAdded obj s) = create CMD_ADD_OBJECT [AObj obj] # undoStack s)"
  by (auto simp: onObjectAdded_def invoker_clearRedoStack_def invoker_pushUndoStack_def fire_def
        dest: execute_stacks)

lemma undone_execute:
  "execute sampleActions (flip_type ''flipX'') undoneEditor =
     Inr (undoneEditor\<lparr>undoStack := [flip_type ''flipX''], redoStack := [],
            trace := [Fired EV_EMPTY_REDO_STACK PNone, Fired EV_PUSH_UNDO_STACK PNone,
                      Fired EV_FLIP_IMAGE (PResult (Data []))]\<rparr>)"
proof -
  have run: "endAll sampleActions undoneEditor = Inr undoneEditor"
    by (simp add: endAll_eq endTextMode_def endFreeDrawing_def
        deactivateAll_def canvas_off_def effect_defs sample_defs undoneEditor_def)
  have cb: "executeCallback (flip_type t) = Some (Fire EV_FLIP_IMAGE)"
    and nm: "cname (flip_type t) = CMD_FLIP_IMAGE" for t
    by (simp_all add: flip_type_def setExecuteCallback_def setUndoCallback_def create_def)
  have "execute sampleActions (flip_type ''flipX'') undoneEditor =
          invoker_invoke sampleActions (flip_type ''flipX'') undoneEditor"
    by (simp add: execute.simps run)
  also have "\<dots> =
     Inr (undoneEditor\<lparr>undoStack := [flip_type ''flipX''], redoStack := [],
            trace := [Fired EV_EMPTY_REDO_STACK PNone, Fired EV_PUSH_UNDO_STACK PNone,
                      Fired EV_FLIP_IMAGE (PResult (Data []))]\<rparr>)"
    by (simp add: invoker_invoke_def invoker_clearRedoStack_def cb nm
        fire_def sampleActions_def undoneEditor_def init_def)
  finally show ?thesis .
qed

theorem new_action_clears_redo_stack_witness:
  "redoStack undoneEditor = [rotate_type ''rotate'' 10] \<and>
   execute sampleActions (flip_type ''flipX'') undoneEditor =
     Inr (undoneEditor\<lparr>undoStack := [flip_type ''flipX''], redoStack := [],
            trace := [Fired EV_EMPTY_REDO_STACK PNone, Fired EV_PUSH_UNDO_STACK PNone,
                      Fired EV_FLIP_IMAGE (PResult (Data []))]\<rparr>) \<and>
   \<not> isType pathObj ''cropzone'' \<and> \<not> hasStamp pathObj \<and>
   redoStack (onObjectAdded pathObj undoneEditor) = [] \<and>
   undoStack (onObjectAdded pathObj undoneEditor) = [create CMD_ADD_OBJECT [AObj pathObj]]"
proof -
  have a: "redoStack undoneEditor = [rotate_type ''rotate'' 10]" "undoStack undoneEditor = []"
    by (simp_all add: undoneEditor_def init_def)
  have b: "\<not> isType pathObj ''cropzone''" "\<not> hasStamp pathObj"
    by (simp_all add: isType_def pathObj_def)
  from new_action_clears_redo_stack [where env = sampleActions and cmd = "flip_type ''flipX''"
      and s = undoneEditor and obj = pathObj
      and s' = "undoneEditor\<lparr>undoStack := [flip_type ''flipX''], redoStack := [],
            trace := [Fired EV_EMPTY_REDO_STACK PNone, Fired EV_PUSH_UNDO_STACK PNone,
                      Fired EV_FLIP_IMAGE (PResult (Data []))]\<rparr>"]
  show ?thesis
    using a b undone_execute by simp
qed

section \<open>Undoing a load\<close>

text \<open>
  Undoing a load-image command that is on top of the undo stack: after \<^verbatim>\<open>endAll\<close> the
  invoker runs the command's undo action, moves the command to the redo stack and hands the
  result of the action to the undo callback of \<^verbatim>\<open>loadImageFromURL\<close>.
\<close>

lemma undo_load_image:
  "endAll env s = Inr s1 \<Longrightarrow>
   undoStack s1 = loadImageCommand imgName imgUrl # rest \<Longrightarrow>
   actUndo env (loadImageCommand imgName imgUrl) (canvas s1) = Some (r, cv) \<Longrightarrow>
     undo env s =
       loadImageUndoCallback r
         ((if rest = [] then fire EV_EMPTY_UNDO_STACK PNone else id)
            (fire EV_PUSH_REDO_STACK PNone
               (s1\<lparr>canvas := cv, undoStack := rest,
                    redoStack := loadImageCommand imgName imgUrl # redoStack s1\<rparr>)))"
proof -
  have cb: "undoCallback (loadImageCommand imgName imgUrl) = Some LoadImageUndoCallback"
    by (simp add: loadImageCommand_def setUndoCallback_def)
  assume "endAll env s = Inr s1"
    and "undoStack s1 = loadImageCommand imgName imgUrl # rest"
    and "actUndo env (loadImageCommand imgName imgUrl) (canvas s1) = Some (r, cv)"
  then show ?thesis
    by (simp add: undo_def invoker_undo_def cb)
qed

text \<open>
  C8. The undo callback bound to a load-image command tells the two outcomes apart by the
  value it is given, and returns normally in both: for an image it fires loadImage with the
  image's width and height and the canvas element's current width and height; for
  \<^verbatim>\<open>null\<close> it fires clearImage and nothing else.
\<close>

theorem loadImage_undo_callback:
  "undoCallback (loadImageCommand imgName imgUrl) = Some LoadImageUndoCallback \<and>
   runCallback (undoCallback (loadImageCommand imgName imgUrl)) (Image img) s =
     Inr (fire EV_LOAD_IMAGE
            (PDimension (Some (width img)) (Some (height img))
               (elementWidth (canvas s)) (elementHeight (canvas s))) s) \<and>
   runCallback (undoCallback (loadImageCommand imgName imgUrl)) Null s =
     Inr (fire EV_CLEAR_IMAGE PNone s)"
  by (simp add: loadImageCommand_def setUndoCallback_def setExecuteCallback_def create_def
        loadImageUndoCallback_def callbackAfterImageLoading_def)

end
